theory Spec2Isabelle
  imports Complex_Main
begin

section \<open>FITS\_tools: matching two images on one pixel grid\<close>

text \<open>
  A shallow embedding of \<^verbatim>\<open>FITS_tools/match_images.py\<close>: the two functions
  \<^verbatim>\<open>project_to_header\<close> and \<^verbatim>\<open>match_fits\<close>. The module computes nothing by
  itself beyond a threshold and a shape test; everything else is a call to a library. The
  libraries are therefore part of the model. What does not depend on rounding is written
  out: the temporary files, reading a FITS file, \<^verbatim>\<open>squeeze\<close>, the comparisons of
  pixels. The two reprojection backends, the header flattening of \<^verbatim>\<open>strip_headers\<close>
  and the rounding arithmetic of numpy (standard deviation, product, sum) are fields of a
  record the functions take as an argument.
\<close>

subsection \<open>Pixels and images\<close>

text \<open>
  A pixel is a floating-point value: NaN, which the source tests for
  (\<^verbatim>\<open>corr_image1==corr_image1\<close> at line 105), one of the two infinities, or a finite
  number, given by the real it stands for. The two zeros are the one \<open>Num 0\<close>; they compare
  equal in every test the source makes.
\<close>

datatype pixel = NaN | PInf | NInf | Num real

fun finite_px :: "pixel \<Rightarrow> bool" where
  "finite_px (Num a) = True"
| "finite_px _ = False"

text \<open>
  Comparisons do not round, so they are written out. A comparison with NaN is false, also
  \<^verbatim>\<open>nan == nan\<close>.
\<close>

fun px_gt :: "pixel \<Rightarrow> pixel \<Rightarrow> bool" where
  "px_gt (Num a) (Num b) = (b < a)"
| "px_gt PInf (Num b) = True"
| "px_gt PInf NInf = True"
| "px_gt (Num a) NInf = True"
| "px_gt _ _ = False"

fun px_eq :: "pixel \<Rightarrow> pixel \<Rightarrow> bool" where
  "px_eq (Num a) (Num b) = (a = b)"
| "px_eq PInf PInf = True"
| "px_eq NInf NInf = True"
| "px_eq _ _ = False"

text \<open>A boolean used as a number: \<^verbatim>\<open>True\<close> is 1 and \<^verbatim>\<open>False\<close> is 0.\<close>

definition px_of_bool :: "bool \<Rightarrow> pixel" where
  "px_of_bool b = Num (if b then 1 else 0)"

text \<open>
  An array is its shape and its elements in row-major order. \<^verbatim>\<open>squeeze\<close> drops the
  axes of length one and keeps the elements.
\<close>

record image =
  shape :: "nat list"
  pixels :: "pixel list"

definition squeeze :: "image \<Rightarrow> image" where
  "squeeze im = im\<lparr>shape := filter (\<lambda>n. n \<noteq> 1) (shape im)\<rparr>"

subsection \<open>Headers, files and the libraries\<close>

type_synonym header = "(string \<times> string) list"

type_synonym kwargs = "(string \<times> string) list"

text \<open>
  A file name is one the caller chose or one \<^verbatim>\<open>tempfile\<close> made up; the two never
  coincide.
\<close>

datatype path = Named string | Temp nat

datatype content = Fits header image | HeaderText header | EmptyFile

text \<open>
  The exceptions that leave the module. \<open>ValueError\<close> is the one \<^verbatim>\<open>raise\<close> of the
  source (line 100); \<open>UnboundLocalError\<close> is what Python raises at \<^verbatim>\<open>return image\<close>
  (line 63) when no branch assigned \<^verbatim>\<open>image\<close>; \<open>Propagated\<close> is any exception a
  library raised, passed on unchanged.
\<close>

datatype error = ValueError string | UnboundLocalError string | Propagated string

text \<open>
  What the module does to the outside is recorded in a log: each entry into
  \<^verbatim>\<open>project_to_header\<close>, each call of a backend with its arguments, and the
  \<^verbatim>\<open>print\<close> of line 107.
\<close>

datatype event =
    ProjectCall path header
  | MontageCall path path path bool bool
  | HcongridCall image header header kwargs
  | Print string

record world =
  files :: "path \<Rightarrow> content option"
  open_temps :: "path list"
  next_temp :: nat
  calls :: "event list"

text \<open>
  The installed libraries. \<open>montageOK\<close> and \<open>hcongridOK\<close> are the outcomes of the two
  \<^verbatim>\<open>import\<close> attempts (lines 32 to 41). \<open>montage_reproject\<close> stands for
  \<^verbatim>\<open>montage.wrappers.reproject\<close>: from the contents of the input file and of the
  header file, and the two flags, it fails or produces the contents of the output file.
  \<open>hcongrid\<close> takes the data, its header, the target header and the keyword arguments.
  \<open>flatten_header\<close> is \<^verbatim>\<open>strip_headers.flatten_header\<close>, whose source is not
  part of the module. The last three fields are the arithmetic of numpy, which rounds:
  \<open>np_std\<close> is \<^verbatim>\<open>ndarray.std()\<close> on the elements of an array, \<open>np_mul\<close> the product
  of two elements as \<^verbatim>\<open>*\<close> computes it, \<open>np_sum\<close> is \<^verbatim>\<open>ndarray.sum()\<close>. Nothing
  is fixed about them here; what a property needs of them is stated where it is used.
\<close>

record libs =
  montageOK :: bool
  hcongridOK :: bool
  flatten_header :: "header \<Rightarrow> header"
  montage_reproject :: "content option \<Rightarrow> content option \<Rightarrow> bool \<Rightarrow> bool \<Rightarrow> string + content"
  hcongrid :: "image \<Rightarrow> header \<Rightarrow> header \<Rightarrow> kwargs \<Rightarrow> string + image"
  np_std :: "pixel list \<Rightarrow> pixel"
  np_mul :: "pixel \<Rightarrow> pixel \<Rightarrow> pixel"
  np_sum :: "pixel list \<Rightarrow> pixel"

definition log_event :: "event \<Rightarrow> world \<Rightarrow> world" where
  "log_event e w = w\<lparr>calls := calls w @ [e]\<rparr>"

text \<open>\<^verbatim>\<open>pyfits.getdata\<close> and \<^verbatim>\<open>pyfits.getheader\<close> raise on anything but a FITS file.\<close>

definition getdata :: "world \<Rightarrow> path \<Rightarrow> error + image" where
  "getdata w p =
     (case files w p of
        Some (Fits h d) \<Rightarrow> Inr d
      | _ \<Rightarrow> Inl (Propagated ''IOError''))"

definition getheader :: "world \<Rightarrow> path \<Rightarrow> error + header" where
  "getheader w p =
     (case files w p of
        Some (Fits h d) \<Rightarrow> Inr h
      | _ \<Rightarrow> Inl (Propagated ''IOError''))"

text \<open>
  \<^verbatim>\<open>tempfile.NamedTemporaryFile()\<close> creates an empty file under a fresh name and keeps
  it open; \<^verbatim>\<open>close()\<close> on it deletes the file. \<^verbatim>\<open>header.toTxtFile(name)\<close> writes the
  header to the named file.
\<close>

definition NamedTemporaryFile :: "world \<Rightarrow> path \<times> world" where
  "NamedTemporaryFile w =
     (let p = Temp (next_temp w)
      in (p, w\<lparr>files := (files w)(p \<mapsto> EmptyFile),
                open_temps := p # open_temps w,
                next_temp := Suc (next_temp w)\<rparr>))"

definition close_temp :: "path \<Rightarrow> world \<Rightarrow> world" where
  "close_temp p w =
     w\<lparr>files := (files w)(p := None), open_temps := removeAll p (open_temps w)\<rparr>"

definition toTxtFile :: "header \<Rightarrow> path \<Rightarrow> world \<Rightarrow> world" where
  "toTxtFile h p w = w\<lparr>files := (files w)(p \<mapsto> HeaderText h)\<rparr>"

subsection \<open>project\_to\_header (lines 10 to 63)\<close>

definition project_to_header ::
  "libs \<Rightarrow> world \<Rightarrow> path \<Rightarrow> header \<Rightarrow> bool \<Rightarrow> bool \<Rightarrow> kwargs \<Rightarrow> (error + image) \<times> world" where
  "project_to_header L w0 fitsfile header use_montage quiet kwargs =
     (let w = log_event (ProjectCall fitsfile header) w0 in
      if montageOK L \<and> use_montage then
        (let (temp_headerfile, w1) = NamedTemporaryFile w;
             w2 = toTxtFile header temp_headerfile w1;
             (outfile, w3) = NamedTemporaryFile w2;
             w4 = log_event (MontageCall fitsfile outfile temp_headerfile True quiet) w3
         in case montage_reproject L (files w4 fitsfile) (files w4 temp_headerfile) True quiet of
              Inl msg \<Rightarrow> (Inl (Propagated msg), w4)
            | Inr out \<Rightarrow>
                (let w5 = w4\<lparr>files := (files w4)(outfile \<mapsto> out)\<rparr>
                 in case getdata w5 outfile of
                      Inl e \<Rightarrow> (Inl e, w5)
                    | Inr img \<Rightarrow>
                        (Inr img, close_temp temp_headerfile (close_temp outfile w5))))
      else if hcongridOK L then
        (case getdata w fitsfile of
           Inl e \<Rightarrow> (Inl e, w)
         | Inr data \<Rightarrow>
             (case getheader w fitsfile of
                Inl e \<Rightarrow> (Inl e, w)
              | Inr h \<Rightarrow>
                  (let w1 = log_event
                         (HcongridCall (squeeze data) (flatten_header L h) header kwargs) w
                   in case hcongrid L (squeeze data) (flatten_header L h) header kwargs of
                        Inl msg \<Rightarrow> (Inl (Propagated msg), w1)
                      | Inr img \<Rightarrow> (Inr img, w1))))
      else (Inl (UnboundLocalError ''image''), w))"

subsection \<open>match\_fits (lines 65 to 117)\<close>

text \<open>
  \<^verbatim>\<open>sigma_cut\<close> is a boolean or a number. As a condition it holds unless it is
  \<^verbatim>\<open>False\<close> or zero; as a factor \<^verbatim>\<open>True\<close> is 1.
\<close>

datatype level = PyBool bool | PyNum real

fun truthy :: "level \<Rightarrow> bool" where
  "truthy (PyBool b) = b"
| "truthy (PyNum x) = (x \<noteq> 0)"

fun level_num :: "level \<Rightarrow> pixel" where
  "level_num (PyBool b) = px_of_bool b"
| "level_num (PyNum x) = Num x"

text \<open>
  Line 103 (and 104): \<^verbatim>\<open>image*(image > image.std()*sigma_cut)\<close>. The comparison
  gives a boolean array, which the product takes as ones and zeros.
\<close>

definition threshold :: "libs \<Rightarrow> level \<Rightarrow> image \<Rightarrow> pixel" where
  "threshold L sigma_cut im = np_mul L (np_std L (pixels im)) (level_num sigma_cut)"

definition cut_image :: "libs \<Rightarrow> level \<Rightarrow> image \<Rightarrow> image" where
  "cut_image L sigma_cut im =
     im\<lparr>pixels := map (\<lambda>x. np_mul L x (px_of_bool (px_gt x (threshold L sigma_cut im))))
                       (pixels im)\<rparr>"

text \<open>
  Lines 105 and 106: \<^verbatim>\<open>OK\<close> marks the positions where neither image is NaN;
  the products of the two images at these positions are added up.
\<close>

definition overlap_products :: "libs \<Rightarrow> image \<Rightarrow> image \<Rightarrow> pixel list" where
  "overlap_products L c1 c2 =
     map (\<lambda>(a, b). np_mul L a b)
       (filter (\<lambda>(a, b). px_eq a a \<and> px_eq b b) (zip (pixels c1) (pixels c2)))"

definition overlap_sum :: "libs \<Rightarrow> image \<Rightarrow> image \<Rightarrow> pixel" where
  "overlap_sum L c1 c2 = np_sum L (overlap_products L c1 c2)"

text \<open>
  Lines 90 to 97: the working header and the two images on its grid. The options
  \<^verbatim>\<open>use_montage\<close> and \<^verbatim>\<open>quiet\<close> reach \<^verbatim>\<open>project_to_header\<close> through
  \<^verbatim>\<open>**kwargs\<close>; they are arguments of their own here, the rest of the keyword
  arguments is \<open>kwargs\<close>.
\<close>

definition resolve_images ::
  "libs \<Rightarrow> world \<Rightarrow> path \<Rightarrow> path \<Rightarrow> header option \<Rightarrow> bool \<Rightarrow> bool \<Rightarrow> kwargs
     \<Rightarrow> (error + header \<times> image \<times> image) \<times> world" where
  "resolve_images L w fitsfile1 fitsfile2 header use_montage quiet kwargs =
     (let (r1, w1) =
            (case header of
               None \<Rightarrow>
                 (case getheader w fitsfile1 of
                    Inl e \<Rightarrow> (Inl e, w)
                  | Inr h \<Rightarrow>
                      (case getdata w fitsfile1 of
                         Inl e \<Rightarrow> (Inl e, w)
                       | Inr d \<Rightarrow> (Inr (flatten_header L h, squeeze d), w)))
             | Some h \<Rightarrow>
                 (case project_to_header L w fitsfile1 h use_montage quiet kwargs of
                    (Inl e, w') \<Rightarrow> (Inl e, w')
                  | (Inr image1, w') \<Rightarrow> (Inr (h, image1), w')))
      in case r1 of
           Inl e \<Rightarrow> (Inl e, w1)
         | Inr (hdr, image1) \<Rightarrow>
             (case project_to_header L w1 fitsfile2 hdr use_montage quiet kwargs of
                (Inl e, w2) \<Rightarrow> (Inl e, w2)
              | (Inr image2_projected, w2) \<Rightarrow> (Inr (hdr, image1, image2_projected), w2)))"

text \<open>The elements of the returned tuple.\<close>

datatype pyval = Img image | Hdr header

text \<open>Lines 114 to 117.\<close>

definition returns :: "image \<Rightarrow> image \<Rightarrow> bool \<Rightarrow> header \<Rightarrow> pyval list" where
  "returns corr_image1 corr_image2 return_header hdr =
     [Img corr_image1, Img corr_image2] @ (if return_header then [Hdr hdr] else [])"

definition match_fits ::
  "libs \<Rightarrow> world \<Rightarrow> path \<Rightarrow> path \<Rightarrow> header option \<Rightarrow> level \<Rightarrow> bool \<Rightarrow> bool \<Rightarrow> bool \<Rightarrow> kwargs
     \<Rightarrow> (error + pyval list) \<times> world" where
  "match_fits L w fitsfile1 fitsfile2 header sigma_cut return_header use_montage quiet kwargs =
     (case resolve_images L w fitsfile1 fitsfile2 header use_montage quiet kwargs of
        (Inl e, w') \<Rightarrow> (Inl e, w')
      | (Inr (hdr, image1, image2_projected), w') \<Rightarrow>
          if shape image1 \<noteq> shape image2_projected
          then (Inl (ValueError ''Failed to reproject images to same shape.''), w')
          else if truthy sigma_cut then
            (let corr_image1 = cut_image L sigma_cut image1;
                 corr_image2 = cut_image L sigma_cut image2_projected
             in if px_eq (overlap_sum L corr_image1 corr_image2) (Num 0)
                then (Inr (returns image1 image2_projected return_header hdr),
                      log_event (Print ''Could not use sigma_cut'') w')
                else (Inr (returns corr_image1 corr_image2 return_header hdr), w'))
          else (Inr (returns image1 image2_projected return_header hdr), w'))"

subsection \<open>What is known of the arithmetic\<close>

text \<open>
  Facts of IEEE 754 arithmetic and of numpy that hold whatever the rounding. Multiplying
  by one returns the factor; a finite number times zero is zero; NaN or an infinity times
  zero is NaN; a product with NaN as its first factor is NaN; \<^verbatim>\<open>std()\<close> of an array
  with an element that is not finite is NaN; a sum of zeros (also of no element) is zero.
\<close>

definition float_laws :: "libs \<Rightarrow> bool" where
  "float_laws L \<longleftrightarrow>
     (\<forall>x. np_mul L x (Num 1) = x) \<and>
     (\<forall>a. np_mul L (Num a) (Num 0) = Num 0) \<and>
     (\<forall>b. np_mul L (Num 0) (Num b) = Num 0) \<and>
     (\<forall>x. \<not> finite_px x \<longrightarrow> np_mul L x (Num 0) = NaN) \<and>
     (\<forall>y. np_mul L NaN y = NaN) \<and>
     (\<forall>xs. (\<exists>x \<in> set xs. \<not> finite_px x) \<longrightarrow> np_std L xs = NaN) \<and>
     (\<forall>ps. (\<forall>p \<in> set ps. p = Num 0) \<longrightarrow> np_sum L ps = Num 0)"

text \<open>
  Facts about signs. A value is not negative when it is plus infinity or a finite number
  from zero on. A standard deviation is NaN or not negative; plus infinity times a positive
  number is plus infinity; the product of two finite numbers that are not negative is not
  negative (it may round to zero, or overflow); a sum of values that are not negative, one
  of them not zero, is not zero, since rounding never takes a sum below its largest term.
\<close>

fun nonneg_px :: "pixel \<Rightarrow> bool" where
  "nonneg_px (Num a) = (0 \<le> a)"
| "nonneg_px PInf = True"
| "nonneg_px _ = False"

definition sign_laws :: "libs \<Rightarrow> bool" where
  "sign_laws L \<longleftrightarrow>
     (\<forall>xs. np_std L xs = NaN \<or> nonneg_px (np_std L xs)) \<and>
     (\<forall>r. 0 < r \<longrightarrow> np_mul L PInf (Num r) = PInf) \<and>
     (\<forall>a b. 0 \<le> a \<and> 0 \<le> b \<longrightarrow> nonneg_px (np_mul L (Num a) (Num b))) \<and>
     (\<forall>ps. (\<forall>p \<in> set ps. nonneg_px p) \<and> (\<exists>p \<in> set ps. p \<noteq> Num 0) \<longrightarrow>
           np_sum L ps \<noteq> Num 0)"

subsection \<open>Reading the log\<close>

text \<open>The entries a run added to the log, and the entries into \<^verbatim>\<open>project_to_header\<close>.\<close>

definition new_calls :: "world \<Rightarrow> world \<Rightarrow> event list" where
  "new_calls w w' = drop (length (calls w)) (calls w')"

fun is_project :: "event \<Rightarrow> bool" where
  "is_project (ProjectCall f h) = True"
| "is_project _ = False"


text \<open>
  The calls of a backend that one run of \<^verbatim>\<open>project_to_header\<close> logs, read off lines 44
  to 61: one call of the full-application backend, or one call of the fallback when the
  source file could be read, or none.
\<close>

definition backend_calls ::
  "libs \<Rightarrow> world \<Rightarrow> path \<Rightarrow> header \<Rightarrow> bool \<Rightarrow> bool \<Rightarrow> kwargs \<Rightarrow> event list" where
  "backend_calls L w f h um q kw =
     (if montageOK L \<and> um
      then [MontageCall f (Temp (Suc (next_temp w))) (Temp (next_temp w)) True q]
      else if hcongridOK L
      then (case files w f of
              Some (Fits h0 d) \<Rightarrow> [HcongridCall (squeeze d) (flatten_header L h0) h kw]
            | _ \<Rightarrow> [])
      else [])"

subsection \<open>Concrete inputs\<close>

text \<open>
  A few installations and a file system with a few small images, used to run the
  functions on. Both example backends copy the data they are given; the example
  \<open>flatten_header\<close> drops the HISTORY cards.
\<close>

definition header_a :: header where
  "header_a = [(''NAXIS'', ''2''), (''HISTORY'', ''made by hand'')]"

definition image_a :: image where
  "image_a = \<lparr>shape = [2, 2], pixels = [Num 1, Num 1, Num (- 1), Num (- 1)]\<rparr>"

definition image_b :: image where
  "image_b = \<lparr>shape = [2, 2], pixels = [Num 1, Num (- 1), Num 7, Num (- 7)]\<rparr>"

definition image_c :: image where
  "image_c = \<lparr>shape = [1, 2, 2], pixels = [Num 1, Num 3, Num 1, Num 3]\<rparr>"

definition image_d :: image where
  "image_d = \<lparr>shape = [2, 2], pixels = [Num 1, Num 5, Num 5, Num 1]\<rparr>"

definition image_e :: image where
  "image_e = \<lparr>shape = [3], pixels = [Num 0, Num 0, Num 0]\<rparr>"

definition example_world :: world where
  "example_world =
     \<lparr>files = [Named ''a.fits'' \<mapsto> Fits header_a image_a,
               Named ''b.fits'' \<mapsto> Fits header_a image_b,
               Named ''c.fits'' \<mapsto> Fits header_a image_c,
               Named ''d.fits'' \<mapsto> Fits header_a image_d,
               Named ''e.fits'' \<mapsto> Fits header_a image_e],
      open_temps = [], next_temp = 0, calls = []\<rparr>"

text \<open>
  The arithmetic of the examples does not round: products and sums are those of the reals
  (extended by the infinities and NaN), and the standard deviation is the square root of
  the mean squared distance to the mean. On the example images, whose pixels are small
  integers and whose standard deviations are integers, floating-point arithmetic gives the
  same values.
\<close>

fun exact_mul :: "pixel \<Rightarrow> pixel \<Rightarrow> pixel" where
  "exact_mul (Num a) (Num b) = Num (a * b)"
| "exact_mul NaN y = NaN"
| "exact_mul x NaN = NaN"
| "exact_mul PInf (Num b) = (if 0 < b then PInf else if b < 0 then NInf else NaN)"
| "exact_mul NInf (Num b) = (if 0 < b then NInf else if b < 0 then PInf else NaN)"
| "exact_mul (Num a) PInf = (if 0 < a then PInf else if a < 0 then NInf else NaN)"
| "exact_mul (Num a) NInf = (if 0 < a then NInf else if a < 0 then PInf else NaN)"
| "exact_mul PInf PInf = PInf"
| "exact_mul NInf NInf = PInf"
| "exact_mul PInf NInf = NInf"
| "exact_mul NInf PInf = NInf"

fun exact_add :: "pixel \<Rightarrow> pixel \<Rightarrow> pixel" where
  "exact_add (Num a) (Num b) = Num (a + b)"
| "exact_add NaN y = NaN"
| "exact_add x NaN = NaN"
| "exact_add PInf NInf = NaN"
| "exact_add NInf PInf = NaN"
| "exact_add PInf y = PInf"
| "exact_add x PInf = PInf"
| "exact_add NInf y = NInf"
| "exact_add x NInf = NInf"

fun exact_sum :: "pixel list \<Rightarrow> pixel" where
  "exact_sum [] = Num 0"
| "exact_sum (x # xs) = exact_add x (exact_sum xs)"

fun the_num :: "pixel \<Rightarrow> real" where
  "the_num (Num a) = a"
| "the_num _ = 0"

definition mean :: "real list \<Rightarrow> real" where
  "mean xs = sum_list xs / real (length xs)"

definition variance :: "real list \<Rightarrow> real" where
  "variance xs = mean (map (\<lambda>x. (x - mean xs)\<^sup>2) xs)"

definition exact_std :: "pixel list \<Rightarrow> pixel" where
  "exact_std xs =
     (if xs = [] \<or> (\<exists>x \<in> set xs. \<not> finite_px x) then NaN
      else Num (sqrt (variance (map the_num xs))))"

definition example_libs :: libs where
  "example_libs =
     \<lparr>montageOK = True, hcongridOK = True,
      flatten_header = filter (\<lambda>card. fst card \<noteq> ''HISTORY''),
      montage_reproject = (\<lambda>inp hdr exact_size silent.
         case (inp, hdr) of
           (Some (Fits h d), Some (HeaderText t)) \<Rightarrow> Inr (Fits t (squeeze d))
         | _ \<Rightarrow> Inl ''mProject: cannot read input''),
      hcongrid = (\<lambda>d h t kw. Inr d),
      np_std = exact_std, np_mul = exact_mul, np_sum = exact_sum\<rparr>"

definition montage_only_libs :: libs where
  "montage_only_libs = example_libs\<lparr>hcongridOK := False\<rparr>"

definition no_backend_libs :: libs where
  "no_backend_libs = example_libs\<lparr>montageOK := False, hcongridOK := False\<rparr>"

definition failing_montage_libs :: libs where
  "failing_montage_libs =
     example_libs\<lparr>montage_reproject := (\<lambda>inp hdr exact_size silent. Inl ''mProject failed'')\<rparr>"

section \<open>Properties\<close>

subsection \<open>Basic facts about the world and project\_to\_header\<close>

lemma log_event_sel:
  "calls (log_event e w) = calls w @ [e]"
  "files (log_event e w) = files w"
  "next_temp (log_event e w) = next_temp w"
  "open_temps (log_event e w) = open_temps w"
  by (simp_all add: log_event_def)

lemma temp_sel:
  "fst (NamedTemporaryFile w) = Temp (next_temp w)"
  "calls (snd (NamedTemporaryFile w)) = calls w"
  "next_temp (snd (NamedTemporaryFile w)) = Suc (next_temp w)"
  "open_temps (snd (NamedTemporaryFile w)) = Temp (next_temp w) # open_temps w"
  "files (snd (NamedTemporaryFile w)) = (files w)(Temp (next_temp w) \<mapsto> EmptyFile)"
  by (simp_all add: NamedTemporaryFile_def Let_def)

lemma toTxtFile_sel:
  "calls (toTxtFile h p w) = calls w"
  "next_temp (toTxtFile h p w) = next_temp w"
  "open_temps (toTxtFile h p w) = open_temps w"
  "files (toTxtFile h p w) = (files w)(p \<mapsto> HeaderText h)"
  by (simp_all add: toTxtFile_def)

lemma close_temp_sel:
  "calls (close_temp p w) = calls w"
  "next_temp (close_temp p w) = next_temp w"
  "open_temps (close_temp p w) = removeAll p (open_temps w)"
  "files (close_temp p w) = (files w)(p := None)"
  by (simp_all add: close_temp_def)

lemma getdata_Inl: "getdata w p = Inl e \<Longrightarrow> e = Propagated ''IOError''"
  by (auto simp add: getdata_def split: option.splits content.splits)

lemma getheader_Inl: "getheader w p = Inl e \<Longrightarrow> e = Propagated ''IOError''"
  by (auto simp add: getheader_def split: option.splits content.splits)

lemma getdata_log: "getdata (log_event e w) p = getdata w p"
  by (simp add: getdata_def log_event_sel)

lemma getheader_log: "getheader (log_event e w) p = getheader w p"
  by (simp add: getheader_def log_event_sel)

lemma project_not_ValueError:
  "fst (project_to_header L w f h um q kw) \<noteq> Inl (ValueError m)"
  by (auto simp add: project_to_header_def Let_def split_def
      split: sum.splits dest: getdata_Inl getheader_Inl)

lemma project_unbound:
  "(\<exists>v. fst (project_to_header L w f h um q kw) = Inl (UnboundLocalError v)) \<longleftrightarrow>
     \<not> (montageOK L \<and> um) \<and> \<not> hcongridOK L"
  by (auto simp add: project_to_header_def Let_def split_def
      split: sum.splits dest: getdata_Inl getheader_Inl)

lemma project_no_backend:
  assumes "\<not> (montageOK L \<and> um)" "\<not> hcongridOK L"
  shows "project_to_header L w f h um q kw =
           (Inl (UnboundLocalError ''image''), log_event (ProjectCall f h) w)"
  using assms by (auto simp add: project_to_header_def Let_def)

lemma project_failure_kinds:
  assumes "montageOK L \<and> um \<or> hcongridOK L"
    and "fst (project_to_header L w f h um q kw) = Inl e"
  shows "\<exists>m. e = Propagated m"
  using assms by (auto simp add: project_to_header_def Let_def split_def
      split: sum.splits if_splits dest: getdata_Inl getheader_Inl)

subsection \<open>When project\_to\_header has no result\<close>

text \<open>
  Claim C2, as amended. \<^verbatim>\<open>project_to_header\<close> ends at \<^verbatim>\<open>return image\<close> with the
  variable never assigned, which Python reports as an UnboundLocalError and not as a
  returned None, exactly when the full-application backend is not both available and
  preferred and the fallback regridder is not available. In that case nothing was done but
  entering the function: no backend was called and no file was touched. In every other
  case the call returns an image or ends with an exception that a library raised (the
  FITS reader or the backend).
\<close>

theorem project_to_header_no_result:
  "((\<exists>v. fst (project_to_header L w f h um q kw) = Inl (UnboundLocalError v)) \<longleftrightarrow>
      \<not> (montageOK L \<and> um) \<and> \<not> hcongridOK L)
   \<and> (\<not> (montageOK L \<and> um) \<and> \<not> hcongridOK L \<longrightarrow>
        project_to_header L w f h um q kw =
          (Inl (UnboundLocalError ''image''), log_event (ProjectCall f h) w))
   \<and> (montageOK L \<and> um \<or> hcongridOK L \<longrightarrow>
        (\<forall>e. fst (project_to_header L w f h um q kw) = Inl e \<longrightarrow> (\<exists>m. e = Propagated m)))"
  using project_unbound [of L w f h um q kw] project_no_backend [of L um w f h q kw]
    project_failure_kinds [of L um w f h q kw]
  by blast

text \<open>
  With no backend installed the call ends unbound, having logged its entry only; with a
  backend installed that fails, the failure is the library's.
\<close>

theorem project_to_header_no_result_witness:
  "\<not> (montageOK no_backend_libs \<and> True) \<and> \<not> hcongridOK no_backend_libs
   \<and> project_to_header no_backend_libs example_world (Named ''a.fits'') header_a True True [] =
       (Inl (UnboundLocalError ''image''),
        example_world\<lparr>calls := [ProjectCall (Named ''a.fits'') header_a]\<rparr>)
   \<and> montageOK failing_montage_libs
   \<and> fst (project_to_header failing_montage_libs example_world (Named ''a.fits'') header_a
            True True []) = Inl (Propagated ''mProject failed'')"
  using project_to_header_no_result
    [of no_backend_libs example_world "Named ''a.fits''" header_a True True "[]"]
    project_to_header_no_result
    [of failing_montage_libs example_world "Named ''a.fits''" header_a True True "[]"]
  by (simp add: no_backend_libs_def failing_montage_libs_def example_libs_def log_event_def
      example_world_def project_to_header_def Let_def split_def)

text \<open>
  Claim C2 as it is written fails: it ties the missing result to both backends being
  missing. Here the full-application backend is installed, the caller asked for the
  fallback (\<^verbatim>\<open>use_montage=False\<close>), the fallback is not installed, and the call has
  no result.
\<close>

theorem project_to_header_backend_available_no_result:
  "montageOK montage_only_libs
   \<and> fst (project_to_header montage_only_libs example_world (Named ''a.fits'') header_a
            False True []) = Inl (UnboundLocalError ''image'')"
  by (simp add: project_to_header_def montage_only_libs_def example_libs_def Let_def)

subsection \<open>Running the functions on the concrete inputs\<close>

lemmas example_defs =
  example_libs_def example_world_def header_a_def image_a_def image_b_def image_c_def
  image_d_def image_e_def

lemmas run_defs =
  match_fits_def resolve_images_def project_to_header_def returns_def getdata_def
  getheader_def log_event_def NamedTemporaryFile_def toTxtFile_def close_temp_def
  squeeze_def Let_def

lemma run_a_e:
  "fst (match_fits example_libs example_world (Named ''a.fits'') (Named ''e.fits'') None
          (PyBool False) False True True []) =
     Inl (ValueError ''Failed to reproject images to same shape.'')"
  by (simp add: run_defs example_defs)

lemma run_a_b:
  "fst (match_fits example_libs example_world (Named ''a.fits'') (Named ''b.fits'') None
          (PyBool False) False True True []) = Inr [Img image_a, Img image_b]"
  by (simp add: run_defs example_defs)

lemma run_a_b_header:
  "fst (match_fits example_libs example_world (Named ''a.fits'') (Named ''b.fits'')
          (Some header_a) (PyBool False) True True True []) =
     Inr [Img image_a, Img image_b, Hdr header_a]"
  by (simp add: run_defs example_defs)

subsection \<open>The temporary files of the full-application path\<close>

text \<open>
  Claim C3 says that both temporary files are released on every exit path of the
  full-application path. The source closes them at lines 54 and 55, after the backend
  returned and its output was read; there is no \<^verbatim>\<open>try\<close> around the backend call. When
  the backend raises, the exception leaves \<^verbatim>\<open>project_to_header\<close> with both files
  still open and still on disk, the header file holding the serialized header. On the
  same input with a backend that succeeds, no temporary file is left.
\<close>

theorem project_to_header_leaves_temp_files:
  "project_to_header failing_montage_libs example_world (Named ''a.fits'') header_a
     True True [] =
     (Inl (Propagated ''mProject failed''),
      example_world
        \<lparr>files := (files example_world)
                    (Temp 0 \<mapsto> HeaderText header_a, Temp 1 \<mapsto> EmptyFile),
          open_temps := [Temp 1, Temp 0],
          next_temp := 2,
          calls := [ProjectCall (Named ''a.fits'') header_a,
                    MontageCall (Named ''a.fits'') (Temp 1) (Temp 0) True True]\<rparr>)
   \<and> open_temps (snd (project_to_header example_libs example_world (Named ''a.fits'')
                          header_a True True [])) = []"
  by (simp add: run_defs failing_montage_libs_def example_libs_def example_world_def)

subsection \<open>The shape check\<close>

lemma resolve_not_ValueError:
  "fst (resolve_images L w f1 f2 ho um q kw) \<noteq> Inl (ValueError m)"
proof -
  have p: "\<And>w f h. project_to_header L w f h um q kw \<noteq> (Inl (ValueError m), w')" for w'
    using project_not_ValueError [of L _ _ _ um q kw m] by (metis fst_conv)
  show ?thesis
    using p
    by (auto simp add: resolve_images_def Let_def split: option.splits sum.splits prod.splits
        dest: getdata_Inl getheader_Inl)
qed

lemma cut_image_shape: "shape (cut_image L sc im) = shape im"
  by (simp add: cut_image_def)

lemma match_fits_ValueError:
  "(\<exists>m. fst (match_fits L w f1 f2 ho sc rh um q kw) = Inl (ValueError m)) \<longleftrightarrow>
     (\<exists>hdr i1 i2 w'. resolve_images L w f1 f2 ho um q kw = (Inr (hdr, i1, i2), w')
        \<and> shape i1 \<noteq> shape i2)"
proof -
  have r: "resolve_images L w f1 f2 ho um q kw \<noteq> (Inl (ValueError m), w')" for m w'
    using resolve_not_ValueError [of L w f1 f2 ho um q kw m] by (metis fst_conv)
  show ?thesis
    using r by (auto simp add: match_fits_def Let_def split: sum.splits prod.splits)
qed

lemma match_fits_shapes:
  "fst (match_fits L w f1 f2 ho sc rh um q kw) = Inr ret \<Longrightarrow>
     \<exists>c1 c2 rest. ret = Img c1 # Img c2 # rest \<and> shape c1 = shape c2"
  by (auto simp add: match_fits_def returns_def Let_def cut_image_shape
      split: sum.splits prod.splits if_splits)

text \<open>
  Claim C1. \<^verbatim>\<open>match_fits\<close> raises its ValueError if and only if the working header and
  both images were obtained (lines 90 to 97 ran to the end) and the two images differ in
  shape; and whenever \<^verbatim>\<open>match_fits\<close> returns, the first two elements of the tuple are
  images of one and the same shape. Exceptions raised inside a library are kept apart
  from the ValueError of line 100: they are \<open>Propagated\<close>.
\<close>

theorem match_fits_shape_check:
  "((\<exists>m. fst (match_fits L w f1 f2 ho sc rh um q kw) = Inl (ValueError m)) \<longleftrightarrow>
      (\<exists>hdr i1 i2 w'. resolve_images L w f1 f2 ho um q kw = (Inr (hdr, i1, i2), w')
         \<and> shape i1 \<noteq> shape i2))
   \<and> (\<forall>ret. fst (match_fits L w f1 f2 ho sc rh um q kw) = Inr ret \<longrightarrow>
         (\<exists>c1 c2 rest. ret = Img c1 # Img c2 # rest \<and> shape c1 = shape c2))"
  using match_fits_ValueError [of L w f1 f2 ho sc rh um q kw]
    match_fits_shapes [of L w f1 f2 ho sc rh um q kw]
  by blast

text \<open>
  On the example files: a 2 by 2 image against one of three elements raises, so the two
  images obtained differ in shape; two 2 by 2 images are returned.
\<close>

theorem match_fits_shape_check_witness:
  "(\<exists>hdr i1 i2 w'.
      resolve_images example_libs example_world (Named ''a.fits'') (Named ''e.fits'') None
        True True [] = (Inr (hdr, i1, i2), w') \<and> shape i1 \<noteq> shape i2)
   \<and> fst (match_fits example_libs example_world (Named ''a.fits'') (Named ''b.fits'') None
            (PyBool False) False True True []) = Inr [Img image_a, Img image_b]
   \<and> shape image_a = shape image_b"
  using match_fits_shape_check
    [of example_libs example_world "Named ''a.fits''" "Named ''e.fits''" None "PyBool False"
      False True True "[]"]
    match_fits_shape_check
    [of example_libs example_world "Named ''a.fits''" "Named ''b.fits''" None "PyBool False"
      False True True "[]"]
    run_a_e run_a_b
  by auto

subsection \<open>Without a sigma cut\<close>

text \<open>
  Claim C6. With a falsy \<^verbatim>\<open>sigma_cut\<close> (\<^verbatim>\<open>False\<close> or zero), \<^verbatim>\<open>match_fits\<close> returns
  exactly when the two images were obtained with equal shapes, and then it returns these
  two images themselves, in the state the projections left: nothing is thresholded,
  masked or printed.
\<close>

theorem match_fits_without_sigma_cut:
  "\<not> truthy sc \<longrightarrow>
     (match_fits L w f1 f2 ho sc rh um q kw = (Inr ret, w') \<longleftrightarrow>
        (\<exists>hdr i1 i2. resolve_images L w f1 f2 ho um q kw = (Inr (hdr, i1, i2), w')
           \<and> shape i1 = shape i2 \<and> ret = returns i1 i2 rh hdr))"
  by (auto simp add: match_fits_def split: sum.splits prod.splits)

theorem match_fits_without_sigma_cut_witness:
  "\<not> truthy (PyNum 0)
   \<and> fst (resolve_images example_libs example_world (Named ''a.fits'') (Named ''b.fits'') None
            True True []) = Inr (flatten_header example_libs header_a, image_a, image_b)
   \<and> fst (match_fits example_libs example_world (Named ''a.fits'') (Named ''b.fits'') None
            (PyNum 0) False True True []) = Inr [Img image_a, Img image_b]"
proof -
  obtain w' where r: "resolve_images example_libs example_world (Named ''a.fits'')
      (Named ''b.fits'') None True True [] =
        (Inr (flatten_header example_libs header_a, image_a, image_b), w')"
    by (simp add: run_defs example_defs)
  have s: "shape image_a = shape image_b"
    by (simp add: image_a_def image_b_def)
  have "match_fits example_libs example_world (Named ''a.fits'') (Named ''b.fits'') None
          (PyNum 0) False True True [] =
        (Inr (returns image_a image_b False (flatten_header example_libs header_a)), w')"
    using match_fits_without_sigma_cut
      [of "PyNum 0" example_libs example_world "Named ''a.fits''" "Named ''b.fits''" None
        False True True "[]"
        "returns image_a image_b False (flatten_header example_libs header_a)" w']
      r s
    by auto
  then show ?thesis using r by (simp add: returns_def)
qed

subsection \<open>The returned tuple\<close>

lemma resolve_header:
  "resolve_images L w f1 f2 (Some h) um q kw = (Inr (hdr, i1, i2), w') \<Longrightarrow> hdr = h"
  by (auto simp add: resolve_images_def Let_def split: sum.splits prod.splits)

text \<open>
  Claim C10. The returned tuple has two elements when \<^verbatim>\<open>return_header\<close> is false and
  three when it is true; when the caller supplied a header and asked for it back, the
  third element is that very header, not flattened and not changed otherwise.
\<close>

theorem match_fits_tuple:
  "fst (match_fits L w f1 f2 ho sc rh um q kw) = Inr ret \<longrightarrow>
     length ret = (if rh then 3 else 2) \<and> (\<forall>h. ho = Some h \<and> rh \<longrightarrow> ret ! 2 = Hdr h)"
  by (auto simp add: match_fits_def returns_def Let_def
      split: sum.splits prod.splits if_splits dest: resolve_header)

text \<open>
  The supplied header here has a HISTORY card, which the example \<open>flatten_header\<close> would
  drop: it comes back with the card.
\<close>

theorem match_fits_tuple_witness:
  "fst (match_fits example_libs example_world (Named ''a.fits'') (Named ''b.fits'')
          (Some header_a) (PyBool False) True True True []) =
     Inr [Img image_a, Img image_b, Hdr header_a]
   \<and> length [Img image_a, Img image_b, Hdr header_a] = 3
   \<and> [Img image_a, Img image_b, Hdr header_a] ! 2 = Hdr header_a
   \<and> flatten_header example_libs header_a \<noteq> header_a
   \<and> length [Img image_a, Img image_b] = 2"
  using match_fits_tuple
    [of example_libs example_world "Named ''a.fits''" "Named ''b.fits''" "Some header_a"
      "PyBool False" True True True "[]" "[Img image_a, Img image_b, Hdr header_a]"]
    match_fits_tuple
    [of example_libs example_world "Named ''a.fits''" "Named ''b.fits''" None
      "PyBool False" False True True "[]" "[Img image_a, Img image_b]"]
    run_a_b_header run_a_b
  by (simp add: example_libs_def header_a_def)


subsection \<open>Which backend is called, and with what\<close>

lemma project_calls:
  "calls (snd (project_to_header L w f h um q kw)) =
     calls w @ ProjectCall f h # backend_calls L w f h um q kw"
proof (cases "montageOK L \<and> um")
  case True
  then show ?thesis
    by (simp add: project_to_header_def backend_calls_def Let_def split_def
        log_event_sel temp_sel toTxtFile_sel close_temp_sel split: sum.splits)
next
  case False
  show ?thesis
  proof (cases "hcongridOK L")
    case True
    with False show ?thesis
      by (auto simp add: project_to_header_def backend_calls_def Let_def
          getdata_log getheader_log getdata_def getheader_def log_event_sel
          split: sum.splits option.splits content.splits)
  next
    case no: False
    with False show ?thesis
      by (auto simp add: project_to_header_def backend_calls_def log_event_sel Let_def)
  qed
qed


lemma backend_calls_cases:
  "(montageOK L \<and> um \<and> backend_calls L w f h um q kw =
        [MontageCall f (Temp (Suc (next_temp w))) (Temp (next_temp w)) True q])
   \<or> (\<not> (montageOK L \<and> um) \<and> (\<exists>d h0. backend_calls L w f h um q kw = [HcongridCall d h0 h kw]))
   \<or> (\<not> (montageOK L \<and> um) \<and> backend_calls L w f h um q kw = [])"
  by (auto simp add: backend_calls_def split: option.splits content.splits)

lemma backend_calls_not_project: "filter is_project (backend_calls L w f h um q kw) = []"
  using backend_calls_cases [of L um w f h q kw] by auto






subsection \<open>Which images are reprojected\<close>

lemma resolve_calls_Some:
  "calls (snd (resolve_images L w f1 f2 (Some h) um q kw)) =
     calls w @ ProjectCall f1 h # backend_calls L w f1 h um q kw @
       (case project_to_header L w f1 h um q kw of
          (Inl e, w1) \<Rightarrow> []
        | (Inr im, w1) \<Rightarrow> ProjectCall f2 h # backend_calls L w1 f2 h um q kw)"
proof (cases "project_to_header L w f1 h um q kw")
  case (Pair r w1)
  have c1: "calls w1 = calls w @ ProjectCall f1 h # backend_calls L w f1 h um q kw"
    using project_calls [of L w f1 h um q kw] Pair by simp
  show ?thesis
  proof (cases r)
    case (Inl e)
    with Pair c1 show ?thesis by (simp add: resolve_images_def)
  next
    case (Inr im)
    have c2: "calls (snd (project_to_header L w1 f2 h um q kw)) =
        calls w1 @ ProjectCall f2 h # backend_calls L w1 f2 h um q kw"
      by (rule project_calls)
    with Pair Inr c1 show ?thesis
      by (auto simp add: resolve_images_def split: prod.splits sum.splits)
  qed
qed

lemma resolve_calls_None:
  assumes "files w f1 = Some (Fits h0 d)"
  shows "calls (snd (resolve_images L w f1 f2 None um q kw)) =
     calls w @ ProjectCall f2 (flatten_header L h0)
       # backend_calls L w f2 (flatten_header L h0) um q kw"
  using assms project_calls [of L w f2 "flatten_header L h0" um q kw]
  by (auto simp add: resolve_images_def getdata_def getheader_def split: prod.splits sum.splits)

lemma match_fits_calls:
  "\<exists>p. calls (snd (match_fits L w f1 f2 ho sc rh um q kw)) =
         calls (snd (resolve_images L w f1 f2 ho um q kw)) @ p \<and> filter is_project p = []"
  by (auto simp add: match_fits_def Let_def log_event_sel split: prod.splits sum.splits)

lemma match_fits_project_calls:
  "(\<forall>h. ho = Some h \<longrightarrow>
       (\<exists>rest. new_calls w (snd (match_fits L w f1 f2 ho sc rh um q kw)) =
                 ProjectCall f1 h # rest)
       \<and> ((\<exists>im. fst (project_to_header L w f1 h um q kw) = Inr im) \<longrightarrow>
            filter is_project (new_calls w (snd (match_fits L w f1 f2 ho sc rh um q kw))) =
              [ProjectCall f1 h, ProjectCall f2 h]))
   \<and> (\<forall>h0 d. ho = None \<and> files w f1 = Some (Fits h0 d) \<longrightarrow>
        filter is_project (new_calls w (snd (match_fits L w f1 f2 ho sc rh um q kw))) =
          [ProjectCall f2 (flatten_header L h0)])"
proof -
  obtain p where p: "calls (snd (match_fits L w f1 f2 ho sc rh um q kw)) =
      calls (snd (resolve_images L w f1 f2 ho um q kw)) @ p" "filter is_project p = []"
    using match_fits_calls [of L w f1 f2 ho sc rh um q kw] by blast
  show ?thesis
  proof (intro conjI allI impI)
    fix h assume "ho = Some h"
    then show "\<exists>rest. new_calls w (snd (match_fits L w f1 f2 ho sc rh um q kw)) =
                 ProjectCall f1 h # rest"
      using p(1) resolve_calls_Some [of L w f1 f2 h um q kw] by (simp add: new_calls_def)
  next
    fix h assume h: "ho = Some h"
      and "\<exists>im. fst (project_to_header L w f1 h um q kw) = Inr im"
    then obtain im w1 where "project_to_header L w f1 h um q kw = (Inr im, w1)"
      by (metis prod.collapse)
    then show "filter is_project (new_calls w (snd (match_fits L w f1 f2 ho sc rh um q kw))) =
              [ProjectCall f1 h, ProjectCall f2 h]"
      using p h resolve_calls_Some [of L w f1 f2 h um q kw]
      by (simp add: new_calls_def backend_calls_not_project)
  next
    fix h0 d assume "ho = None \<and> files w f1 = Some (Fits h0 d)"
    then show "filter is_project (new_calls w (snd (match_fits L w f1 f2 ho sc rh um q kw))) =
          [ProjectCall f2 (flatten_header L h0)]"
      using p resolve_calls_None [of w f1 h0 d L f2 um q kw]
      by (simp add: new_calls_def backend_calls_not_project)
  qed
qed

text \<open>
  Claim C7. With a header supplied, the first thing \<^verbatim>\<open>match_fits\<close> does is to enter
  \<^verbatim>\<open>project_to_header\<close> for file 1 and that header, whatever the header is; there is
  no test that could skip it. When this projection yields an image, file 2 is projected
  onto the same header next, and these are the only two projections. With no header
  supplied and file 1 readable, the only projection is that of file 2 onto the flattened
  header of file 1. (When the step for image 1 raises, the exception ends the call before
  file 2 is reached.)
\<close>

theorem match_fits_reprojects:
  "(\<forall>h. ho = Some h \<longrightarrow>
       (\<exists>rest. new_calls w (snd (match_fits L w f1 f2 ho sc rh um q kw)) =
                 ProjectCall f1 h # rest)
       \<and> ((\<exists>im. fst (project_to_header L w f1 h um q kw) = Inr im) \<longrightarrow>
            filter is_project (new_calls w (snd (match_fits L w f1 f2 ho sc rh um q kw))) =
              [ProjectCall f1 h, ProjectCall f2 h]))
   \<and> (\<forall>h0 d. ho = None \<and> files w f1 = Some (Fits h0 d) \<longrightarrow>
        filter is_project (new_calls w (snd (match_fits L w f1 f2 ho sc rh um q kw))) =
          [ProjectCall f2 (flatten_header L h0)])"
  by (rule match_fits_project_calls)

subsection \<open>Without a header\<close>

lemma resolve_None_Inr:
  assumes "fst (resolve_images L w f1 f2 None um q kw) = Inr (hdr, i1, i2)"
  shows "\<exists>h0 d. files w f1 = Some (Fits h0 d) \<and> hdr = flatten_header L h0 \<and> i1 = squeeze d
           \<and> fst (project_to_header L w f2 hdr um q kw) = Inr i2"
  using assms
  by (auto simp add: resolve_images_def getdata_def getheader_def
      split: prod.splits sum.splits option.splits content.splits)

lemma match_fits_Inr:
  assumes "fst (match_fits L w f1 f2 ho sc rh um q kw) = Inr ret"
  shows "\<exists>hdr i1 i2. fst (resolve_images L w f1 f2 ho um q kw) = Inr (hdr, i1, i2)
           \<and> (ret = returns i1 i2 rh hdr
                \<or> truthy sc \<and> ret = returns (cut_image L sc i1) (cut_image L sc i2) rh hdr)"
  using assms
  by (auto simp add: match_fits_def Let_def split: prod.splits sum.splits if_splits)

text \<open>
  Claim C5. Whenever \<^verbatim>\<open>match_fits\<close> returns from a call without a header, file 1 is a
  FITS file with some header and data; the working header is the flattened header of
  file 1; image 1 is the squeezed data of file 1, not reprojected: the only projection
  logged is that of file 2 onto the working header; the header returned on request is
  that flattened header; and the first returned image is image 1 itself, or, when a sigma
  cut was applied, its cut.
\<close>

theorem match_fits_without_header:
  "fst (match_fits L w f1 f2 None sc rh um q kw) = Inr ret \<longrightarrow>
     (\<exists>h0 d i2. files w f1 = Some (Fits h0 d)
        \<and> fst (resolve_images L w f1 f2 None um q kw) =
            Inr (flatten_header L h0, squeeze d, i2)
        \<and> fst (project_to_header L w f2 (flatten_header L h0) um q kw) = Inr i2
        \<and> filter is_project (new_calls w (snd (match_fits L w f1 f2 None sc rh um q kw))) =
            [ProjectCall f2 (flatten_header L h0)]
        \<and> (rh \<longrightarrow> ret ! 2 = Hdr (flatten_header L h0))
        \<and> (ret ! 0 = Img (squeeze d) \<or> truthy sc \<and> ret ! 0 = Img (cut_image L sc (squeeze d))))"
proof
  assume a: "fst (match_fits L w f1 f2 None sc rh um q kw) = Inr ret"
  from match_fits_Inr [OF a] obtain hdr i1 i2 where
    r: "fst (resolve_images L w f1 f2 None um q kw) = Inr (hdr, i1, i2)"
    and ret: "ret = returns i1 i2 rh hdr
                \<or> truthy sc \<and> ret = returns (cut_image L sc i1) (cut_image L sc i2) rh hdr"
    by blast
  from resolve_None_Inr [OF r] obtain h0 d where
    f: "files w f1 = Some (Fits h0 d)" and hdr: "hdr = flatten_header L h0"
    and i1: "i1 = squeeze d"
    and pr: "fst (project_to_header L w f2 hdr um q kw) = Inr i2"
    by blast
  have calls: "filter is_project (new_calls w (snd (match_fits L w f1 f2 None sc rh um q kw))) =
            [ProjectCall f2 (flatten_header L h0)]"
    using match_fits_project_calls [of None w L f1 f2 sc rh um q kw] f by blast
  have third: "rh \<longrightarrow> ret ! 2 = Hdr (flatten_header L h0)"
    using ret hdr by (auto simp add: returns_def)
  have first: "ret ! 0 = Img (squeeze d) \<or> truthy sc \<and> ret ! 0 = Img (cut_image L sc (squeeze d))"
    using ret i1 by (auto simp add: returns_def)
  show "\<exists>h0 d i2. files w f1 = Some (Fits h0 d)
        \<and> fst (resolve_images L w f1 f2 None um q kw) =
            Inr (flatten_header L h0, squeeze d, i2)
        \<and> fst (project_to_header L w f2 (flatten_header L h0) um q kw) = Inr i2
        \<and> filter is_project (new_calls w (snd (match_fits L w f1 f2 None sc rh um q kw))) =
            [ProjectCall f2 (flatten_header L h0)]
        \<and> (rh \<longrightarrow> ret ! 2 = Hdr (flatten_header L h0))
        \<and> (ret ! 0 = Img (squeeze d) \<or> truthy sc \<and> ret ! 0 = Img (cut_image L sc (squeeze d)))"
    using f r pr calls third first hdr i1 by blast
qed

lemma example_flatten: "flatten_header example_libs header_a = [(''NAXIS'', ''2'')]"
  by (simp add: example_libs_def header_a_def)

lemma example_file_a: "files example_world (Named ''a.fits'') = Some (Fits header_a image_a)"
  by (simp add: example_world_def)

lemma example_file_c: "files example_world (Named ''c.fits'') = Some (Fits header_a image_c)"
  by (simp add: example_world_def)

lemma run_project_a:
  "fst (project_to_header example_libs example_world (Named ''a.fits'') header_a True True [])
     = Inr image_a"
  by (simp add: run_defs example_defs)

lemma run_c_d:
  "fst (match_fits example_libs example_world (Named ''c.fits'') (Named ''d.fits'') None
          (PyBool False) True True True []) =
     Inr [Img (squeeze image_c), Img image_d, Hdr [(''NAXIS'', ''2'')]]"
  by (simp add: run_defs example_defs)

text \<open>
  The supplied header here is the very header file 1 carries: file 1 is projected all the
  same.
\<close>

theorem match_fits_reprojects_witness:
  "getheader example_world (Named ''a.fits'') = Inr header_a
   \<and> fst (project_to_header example_libs example_world (Named ''a.fits'') header_a True True [])
       = Inr image_a
   \<and> filter is_project (new_calls example_world
        (snd (match_fits example_libs example_world (Named ''a.fits'') (Named ''b.fits'')
                (Some header_a) (PyBool False) False True True []))) =
       [ProjectCall (Named ''a.fits'') header_a, ProjectCall (Named ''b.fits'') header_a]
   \<and> filter is_project (new_calls example_world
        (snd (match_fits example_libs example_world (Named ''a.fits'') (Named ''b.fits'')
                None (PyBool False) False True True []))) =
       [ProjectCall (Named ''b.fits'') [(''NAXIS'', ''2'')]]"
  using match_fits_reprojects
    [where ho = "Some header_a" and L = example_libs and w = example_world
       and ?f1.0 = "Named ''a.fits''" and ?f2.0 = "Named ''b.fits''" and sc = "PyBool False"
       and rh = False and um = True and q = True and kw = "[]"]
    match_fits_reprojects
    [where ho = None and L = example_libs and w = example_world
       and ?f1.0 = "Named ''a.fits''" and ?f2.0 = "Named ''b.fits''" and sc = "PyBool False"
       and rh = False and um = True and q = True and kw = "[]"]
    run_project_a example_file_a example_flatten
  by (simp add: getheader_def)

text \<open>On \<^verbatim>\<open>c.fits\<close>, stored as 1 by 2 by 2: image 1 comes back squeezed to 2 by 2.\<close>

theorem match_fits_without_header_witness:
  "fst (match_fits example_libs example_world (Named ''c.fits'') (Named ''d.fits'') None
          (PyBool False) True True True []) =
     Inr [Img (squeeze image_c), Img image_d, Hdr [(''NAXIS'', ''2'')]]
   \<and> shape (squeeze image_c) = [2, 2]
   \<and> filter is_project (new_calls example_world
        (snd (match_fits example_libs example_world (Named ''c.fits'') (Named ''d.fits'')
                None (PyBool False) True True True []))) =
       [ProjectCall (Named ''d.fits'') [(''NAXIS'', ''2'')]]"
  using match_fits_without_header
    [of example_libs example_world "Named ''c.fits''" "Named ''d.fits''" "PyBool False"
      True True True "[]" "[Img (squeeze image_c), Img image_d, Hdr [(''NAXIS'', ''2'')]]"]
    run_c_d example_file_c example_flatten
  by (auto simp add: squeeze_def image_c_def)

subsection \<open>The sigma cut under the facts of the arithmetic\<close>

lemma px_eq_zero: "px_eq x (Num 0) \<longleftrightarrow> x = Num 0"
  by (cases x) auto

lemma px_eq_self: "px_eq x x \<longleftrightarrow> x \<noteq> NaN"
  by (cases x) auto

lemma px_gt_NaN: "px_gt x NaN = False"
  by (cases x) auto

lemma finite_px_Num: "finite_px x \<longleftrightarrow> (\<exists>a. x = Num a)"
  by (cases x) auto

lemma level_num_Num: "\<exists>r. level_num sc = Num r"
  by (cases sc) (simp_all add: px_of_bool_def)

text \<open>One pixel through line 103.\<close>

lemma cut_pixel_finite:
  assumes "float_laws L" "finite_px x"
  shows "np_mul L x (px_of_bool (px_gt x t)) = (if px_gt x t then x else Num 0)"
  using assms by (auto simp add: float_laws_def px_of_bool_def finite_px_Num)

lemma cut_pixel_no_threshold:
  assumes "float_laws L"
  shows "np_mul L x (px_of_bool (px_gt x NaN)) = (if finite_px x then Num 0 else NaN)"
  using assms by (auto simp add: float_laws_def px_of_bool_def px_gt_NaN finite_px_Num)

lemma threshold_finite_pixels:
  assumes "float_laws L" "threshold L sc im \<noteq> NaN" "x \<in> set (pixels im)"
  shows "finite_px x"
proof (rule ccontr)
  assume "\<not> finite_px x"
  with assms(1,3) have "np_std L (pixels im) = NaN"
    by (auto simp add: float_laws_def)
  with assms(1) have "threshold L sc im = NaN"
    by (simp add: threshold_def float_laws_def)
  with assms(2) show False by simp
qed

lemma cut_image_pixels:
  assumes "float_laws L" "threshold L sc im \<noteq> NaN"
  shows "cut_image L sc im =
     im\<lparr>pixels := map (\<lambda>x. if px_gt x (threshold L sc im) then x else Num 0) (pixels im)\<rparr>"
proof -
  have "map (\<lambda>x. np_mul L x (px_of_bool (px_gt x (threshold L sc im)))) (pixels im) =
        map (\<lambda>x. if px_gt x (threshold L sc im) then x else Num 0) (pixels im)"
  proof (rule map_cong [OF refl])
    fix x assume "x \<in> set (pixels im)"
    then have "finite_px x"
      using assms by (rule threshold_finite_pixels [rotated 2])
    with assms(1) show "np_mul L x (px_of_bool (px_gt x (threshold L sc im))) =
        (if px_gt x (threshold L sc im) then x else Num 0)"
      by (rule cut_pixel_finite)
  qed
  then show ?thesis by (simp add: cut_image_def)
qed

lemma cut_pixels_NaN_threshold:
  assumes "float_laws L" "threshold L sc im = NaN" "x \<in> set (pixels (cut_image L sc im))"
  shows "x = NaN \<or> x = Num 0"
  using assms cut_pixel_no_threshold [OF assms(1)] by (auto simp add: cut_image_def)


lemma overlap_products_elem:
  assumes "p \<in> set (overlap_products L c1 c2)"
  shows "\<exists>a b. a \<in> set (pixels c1) \<and> b \<in> set (pixels c2) \<and> a \<noteq> NaN \<and> b \<noteq> NaN
           \<and> p = np_mul L a b"
proof -
  from assms obtain x y where z: "(x, y) \<in> set (zip (pixels c1) (pixels c2))"
    and ok: "px_eq x x" "px_eq y y" and p: "p = np_mul L x y"
    by (auto simp add: overlap_products_def)
  from z have "x \<in> set (pixels c1)" "y \<in> set (pixels c2)"
    by (auto dest: set_zip_leftD set_zip_rightD)
  with ok p show ?thesis by (auto simp add: px_eq_self)
qed




lemma match_fits_sigma:
  assumes "resolve_images L w f1 f2 ho um q kw = (Inr (hdr, i1, i2), w')"
    and "shape i1 = shape i2" "truthy sc"
  shows "match_fits L w f1 f2 ho sc rh um q kw =
     (if overlap_sum L (cut_image L sc i1) (cut_image L sc i2) = Num 0
      then (Inr (returns i1 i2 rh hdr), log_event (Print ''Could not use sigma_cut'') w')
      else (Inr (returns (cut_image L sc i1) (cut_image L sc i2) rh hdr), w'))"
  using assms by (simp add: match_fits_def Let_def px_eq_zero)

subsection \<open>Signs under a positive level\<close>

lemma nonneg_px_cases: "nonneg_px x \<longleftrightarrow> x = PInf \<or> (\<exists>a. x = Num a \<and> 0 \<le> a)"
  by (cases x) auto

lemma threshold_sign:
  assumes "float_laws L" "sign_laws L" "level_num sc = Num r" "0 < r"
  shows "threshold L sc im = NaN \<or> nonneg_px (threshold L sc im)"
proof -
  from assms(2) have "np_std L (pixels im) = NaN \<or> nonneg_px (np_std L (pixels im))"
    by (simp add: sign_laws_def)
  then consider "np_std L (pixels im) = NaN" | "np_std L (pixels im) = PInf"
    | s where "np_std L (pixels im) = Num s" "0 \<le> s"
    by (auto simp add: nonneg_px_cases)
  then show ?thesis
  proof cases
    case 1
    with assms(1) show ?thesis by (simp add: threshold_def float_laws_def)
  next
    case 2
    with assms(2,3,4) show ?thesis by (simp add: threshold_def sign_laws_def)
  next
    case 3
    with assms(2,3,4) show ?thesis
      by (simp add: threshold_def sign_laws_def)
  qed
qed

lemma cut_pixels_nonneg:
  assumes "float_laws L" "sign_laws L" "level_num sc = Num r" "0 < r"
    and "x \<in> set (pixels (cut_image L sc im))"
  shows "x = NaN \<or> (\<exists>a. x = Num a \<and> 0 \<le> a)"
proof (cases "threshold L sc im = NaN")
  case True
  from cut_pixels_NaN_threshold [OF assms(1) True assms(5)] show ?thesis by auto
next
  case False
  with threshold_sign [OF assms(1-4), of im] have t: "nonneg_px (threshold L sc im)" by simp
  from assms(5) obtain y where y: "y \<in> set (pixels im)"
    and x: "x = (if px_gt y (threshold L sc im) then y else Num 0)"
    unfolding cut_image_pixels [OF assms(1) False] by auto
  from threshold_finite_pixels [OF assms(1) False y] obtain a where a: "y = Num a"
    by (auto simp add: finite_px_Num)
  show ?thesis
  proof (cases "px_gt y (threshold L sc im)")
    case False
    with x show ?thesis by simp
  next
    case True
    with t a have "0 \<le> a" by (cases "threshold L sc im") auto
    with x a True show ?thesis by simp
  qed
qed

lemma overlap_sum_positive_level:
  assumes "float_laws L" "sign_laws L" "level_num sc = Num r" "0 < r"
    and "p \<in> set (overlap_products L (cut_image L sc i1) (cut_image L sc i2))" "p \<noteq> Num 0"
  shows "overlap_sum L (cut_image L sc i1) (cut_image L sc i2) \<noteq> Num 0"
proof -
  have "nonneg_px p"
    if "p \<in> set (overlap_products L (cut_image L sc i1) (cut_image L sc i2))" for p
  proof -
    from overlap_products_elem [OF that] obtain a b where
      a: "a \<in> set (pixels (cut_image L sc i1))" "a \<noteq> NaN"
      and b: "b \<in> set (pixels (cut_image L sc i2))" "b \<noteq> NaN"
      and p: "p = np_mul L a b" by blast
    from cut_pixels_nonneg [OF assms(1-4) a(1)] a(2) obtain a' where "a = Num a'" "0 \<le> a'"
      by auto
    moreover from cut_pixels_nonneg [OF assms(1-4) b(1)] b(2)
    obtain b' where "b = Num b'" "0 \<le> b'" by auto
    ultimately show ?thesis using p assms(2) by (simp add: sign_laws_def)
  qed
  then have all: "\<forall>p \<in> set (overlap_products L (cut_image L sc i1) (cut_image L sc i2)).
      nonneg_px p" by blast
  have law: "(\<forall>p \<in> set ps. nonneg_px p) \<and> (\<exists>p \<in> set ps. p \<noteq> Num 0) \<longrightarrow>
      np_sum L ps \<noteq> Num 0" for ps
    using assms(2) by (simp add: sign_laws_def)
  from law [of "overlap_products L (cut_image L sc i1) (cut_image L sc i2)"] all assms(5,6)
  show ?thesis
    unfolding overlap_sum_def by blast
qed

subsection \<open>The arithmetic of the examples obeys the laws\<close>

lemma variance_nonneg: "0 \<le> variance xs"
proof -
  have "0 \<le> (\<Sum>x\<leftarrow>xs. (x - m)\<^sup>2)" for m :: real
    by (rule sum_list_nonneg) auto
  then show ?thesis
    by (simp add: variance_def mean_def)
qed

lemma exact_mul_one: "exact_mul x (Num 1) = x"
  by (cases x) auto

lemma exact_mul_zero: "\<not> finite_px x \<Longrightarrow> exact_mul x (Num 0) = NaN"
  by (cases x) auto

lemma exact_sum_zeros: "\<forall>p \<in> set ps. p = Num 0 \<Longrightarrow> exact_sum ps = Num 0"
  by (induction ps) simp_all

lemma exact_sum_nonneg:
  assumes "\<forall>p \<in> set ps. nonneg_px p"
  shows "nonneg_px (exact_sum ps) \<and> (exact_sum ps = Num 0 \<longrightarrow> (\<forall>p \<in> set ps. p = Num 0))"
  using assms
proof (induction ps)
  case Nil
  then show ?case by simp
next
  case (Cons x xs)
  then have ih: "nonneg_px (exact_sum xs)"
    "exact_sum xs = Num 0 \<longrightarrow> (\<forall>p \<in> set xs. p = Num 0)" by auto
  from Cons.prems have x: "nonneg_px x" by simp
  from x ih(1) consider "x = PInf" | "exact_sum xs = PInf"
    | a s where "x = Num a" "0 \<le> a" "exact_sum xs = Num s" "0 \<le> s"
    by (auto simp add: nonneg_px_cases)
  then show ?case
  proof cases
    case 1
    with ih(1) show ?thesis by (cases "exact_sum xs") auto
  next
    case 2
    with x show ?thesis by (cases x) auto
  next
    case 3
    with ih(2) show ?thesis by (auto simp add: add_nonneg_eq_0_iff)
  qed
qed

lemma example_float_laws: "float_laws example_libs"
  by (auto simp add: float_laws_def example_libs_def exact_mul_one exact_mul_zero
      exact_sum_zeros exact_std_def)

lemma example_sign_laws: "sign_laws example_libs"
  using exact_sum_nonneg
  by (auto simp add: sign_laws_def example_libs_def exact_std_def variance_nonneg)

subsection \<open>The sigma cut on the concrete images\<close>

lemma sqrt_4: "sqrt 4 = 2"
  using real_sqrt_abs [of 2] by simp

lemma sqrt_25: "sqrt 25 = 5"
  using real_sqrt_abs [of 5] by simp

lemma example_np:
  "np_std example_libs = exact_std" "np_mul example_libs = exact_mul"
  "np_sum example_libs = exact_sum"
  by (simp_all add: example_libs_def)

lemma std_b: "exact_std (pixels image_b) = Num 5"
  by (simp add: exact_std_def image_b_def variance_def mean_def sqrt_25)

lemma std_c: "exact_std (pixels (squeeze image_c)) = Num 1"
  by (simp add: exact_std_def squeeze_def image_c_def variance_def mean_def)

lemma std_d: "exact_std (pixels image_d) = Num 2"
  by (simp add: exact_std_def image_d_def variance_def mean_def sqrt_4)

lemma cut_c:
  "cut_image example_libs (PyNum 1) (squeeze image_c) =
     \<lparr>shape = [2, 2], pixels = [Num 0, Num 3, Num 0, Num 3]\<rparr>"
  by (simp add: cut_image_def threshold_def example_np std_c)
     (simp add: image_c_def squeeze_def px_of_bool_def)

lemma cut_d:
  "cut_image example_libs (PyNum 1) image_d =
     \<lparr>shape = [2, 2], pixels = [Num 0, Num 5, Num 5, Num 0]\<rparr>"
  by (simp add: cut_image_def threshold_def example_np std_d)
     (simp add: image_d_def px_of_bool_def)

lemma cut_b:
  "cut_image example_libs (PyNum 1) image_b =
     \<lparr>shape = [2, 2], pixels = [Num 0, Num 0, Num 7, Num 0]\<rparr>"
  by (simp add: cut_image_def threshold_def example_np std_b)
     (simp add: image_b_def px_of_bool_def)


lemma products_c_d:
  "overlap_products example_libs (cut_image example_libs (PyNum 1) (squeeze image_c))
     (cut_image example_libs (PyNum 1) image_d) = [Num 0, Num 15, Num 0, Num 0]"
  by (simp add: cut_c cut_d overlap_products_def example_np)

lemma products_c_b:
  "overlap_products example_libs (cut_image example_libs (PyNum 1) (squeeze image_c))
     (cut_image example_libs (PyNum 1) image_b) = [Num 0, Num 0, Num 0, Num 0]"
  by (simp add: cut_c cut_b overlap_products_def example_np)


lemma sum_c_b:
  "overlap_sum example_libs (cut_image example_libs (PyNum 1) (squeeze image_c))
     (cut_image example_libs (PyNum 1) image_b) = Num 0"
  by (simp add: overlap_sum_def products_c_b example_np)

lemma resolve_c_d:
  "\<exists>w'. resolve_images example_libs example_world (Named ''c.fits'') (Named ''d.fits'') None
      True True [] = (Inr ([(''NAXIS'', ''2'')], squeeze image_c, image_d), w')"
  by (simp add: run_defs example_defs)

lemma resolve_c_b:
  "\<exists>w'. resolve_images example_libs example_world (Named ''c.fits'') (Named ''b.fits'') None
      True True [] = (Inr ([(''NAXIS'', ''2'')], squeeze image_c, image_b), w')"
  by (simp add: run_defs example_defs)

lemma shape_c_d: "shape (squeeze image_c) = shape image_d"
  by (simp add: squeeze_def image_c_def image_d_def)

lemma shape_c_b: "shape (squeeze image_c) = shape image_b"
  by (simp add: squeeze_def image_c_def image_b_def)

subsection \<open>The degenerate sigma cut\<close>

text \<open>
  Claim C4. In a call with \<^verbatim>\<open>sigma_cut\<close> set that got two images of one shape, line
  106 compares the sum of the products with zero exactly: if the sum is zero the cut is
  discarded, the message is printed and the two images are returned as they were before
  the cut; if it is not, the cut images are returned. For a positive level, which is the
  level the specification gives (false, or a positive numeric factor), and an arithmetic
  that obeys the facts stated above, no retained pixel is negative, no two products can
  cancel, and a single product that is not zero, at a position where both cut images
  are not NaN, keeps the cut. The products and the sum are the ones the arithmetic
  computes: a product that rounds to zero is a zero.
\<close>

theorem match_fits_degenerate_sigma_cut:
  "resolve_images L w f1 f2 ho um q kw = (Inr (hdr, i1, i2), w') \<and> shape i1 = shape i2
     \<and> truthy sc \<longrightarrow>
     (overlap_sum L (cut_image L sc i1) (cut_image L sc i2) = Num 0 \<longrightarrow>
        match_fits L w f1 f2 ho sc rh um q kw =
          (Inr (returns i1 i2 rh hdr), log_event (Print ''Could not use sigma_cut'') w'))
   \<and> (overlap_sum L (cut_image L sc i1) (cut_image L sc i2) \<noteq> Num 0 \<longrightarrow>
        match_fits L w f1 f2 ho sc rh um q kw =
          (Inr (returns (cut_image L sc i1) (cut_image L sc i2) rh hdr), w'))
   \<and> (float_laws L \<and> sign_laws L \<and> (\<exists>r. level_num sc = Num r \<and> 0 < r)
        \<and> (\<exists>p \<in> set (overlap_products L (cut_image L sc i1) (cut_image L sc i2)).
              p \<noteq> Num 0) \<longrightarrow>
        match_fits L w f1 f2 ho sc rh um q kw =
          (Inr (returns (cut_image L sc i1) (cut_image L sc i2) rh hdr), w'))"
proof (intro impI)
  assume a: "resolve_images L w f1 f2 ho um q kw = (Inr (hdr, i1, i2), w')
     \<and> shape i1 = shape i2 \<and> truthy sc"
  then have m: "match_fits L w f1 f2 ho sc rh um q kw =
     (if overlap_sum L (cut_image L sc i1) (cut_image L sc i2) = Num 0
      then (Inr (returns i1 i2 rh hdr), log_event (Print ''Could not use sigma_cut'') w')
      else (Inr (returns (cut_image L sc i1) (cut_image L sc i2) rh hdr), w'))"
    using match_fits_sigma [of L w f1 f2 ho um q kw hdr i1 i2 w' sc rh] by blast
  have pos: "overlap_sum L (cut_image L sc i1) (cut_image L sc i2) \<noteq> Num 0"
    if "float_laws L" "sign_laws L" "\<exists>r. level_num sc = Num r \<and> 0 < r"
      and "\<exists>p \<in> set (overlap_products L (cut_image L sc i1) (cut_image L sc i2)). p \<noteq> Num 0"
    using that overlap_sum_positive_level [of L sc _ _ i1 i2] by blast
  show "(overlap_sum L (cut_image L sc i1) (cut_image L sc i2) = Num 0 \<longrightarrow>
        match_fits L w f1 f2 ho sc rh um q kw =
          (Inr (returns i1 i2 rh hdr), log_event (Print ''Could not use sigma_cut'') w'))
   \<and> (overlap_sum L (cut_image L sc i1) (cut_image L sc i2) \<noteq> Num 0 \<longrightarrow>
        match_fits L w f1 f2 ho sc rh um q kw =
          (Inr (returns (cut_image L sc i1) (cut_image L sc i2) rh hdr), w'))
   \<and> (float_laws L \<and> sign_laws L \<and> (\<exists>r. level_num sc = Num r \<and> 0 < r)
        \<and> (\<exists>p \<in> set (overlap_products L (cut_image L sc i1) (cut_image L sc i2)).
              p \<noteq> Num 0) \<longrightarrow>
        match_fits L w f1 f2 ho sc rh um q kw =
          (Inr (returns (cut_image L sc i1) (cut_image L sc i2) rh hdr), w'))"
    using m pos by auto
qed

text \<open>
  Level 1 on \<^verbatim>\<open>c.fits\<close> against \<^verbatim>\<open>b.fits\<close>: no position survives in both images,
  the sum is zero and the images come back uncut. Against \<^verbatim>\<open>d.fits\<close> one product is
  15 and the cut images come back.
\<close>

theorem match_fits_degenerate_sigma_cut_witness:
  "truthy (PyNum 1) \<and> float_laws example_libs \<and> sign_laws example_libs
   \<and> overlap_sum example_libs (cut_image example_libs (PyNum 1) (squeeze image_c))
        (cut_image example_libs (PyNum 1) image_b) = Num 0
   \<and> fst (match_fits example_libs example_world (Named ''c.fits'') (Named ''b.fits'') None
            (PyNum 1) False True True []) = Inr [Img (squeeze image_c), Img image_b]
   \<and> Num 15 \<in> set (overlap_products example_libs
                      (cut_image example_libs (PyNum 1) (squeeze image_c))
                      (cut_image example_libs (PyNum 1) image_d))
   \<and> fst (match_fits example_libs example_world (Named ''c.fits'') (Named ''d.fits'') None
            (PyNum 1) False True True []) =
       Inr [Img \<lparr>shape = [2, 2], pixels = [Num 0, Num 3, Num 0, Num 3]\<rparr>,
            Img \<lparr>shape = [2, 2], pixels = [Num 0, Num 5, Num 5, Num 0]\<rparr>]"
proof -
  obtain w1 where r1: "resolve_images example_libs example_world (Named ''c.fits'')
      (Named ''b.fits'') None True True [] =
        (Inr ([(''NAXIS'', ''2'')], squeeze image_c, image_b), w1)"
    using resolve_c_b by blast
  obtain w2 where r2: "resolve_images example_libs example_world (Named ''c.fits'')
      (Named ''d.fits'') None True True [] =
        (Inr ([(''NAXIS'', ''2'')], squeeze image_c, image_d), w2)"
    using resolve_c_d by blast
  have p: "\<exists>p \<in> set (overlap_products example_libs
                      (cut_image example_libs (PyNum 1) (squeeze image_c))
                      (cut_image example_libs (PyNum 1) image_d)). p \<noteq> Num 0"
    by (simp add: products_c_d)
  have lv: "\<exists>r. level_num (PyNum 1) = Num r \<and> 0 < r" "truthy (PyNum 1)"
    by simp_all
  have m1: "match_fits example_libs example_world (Named ''c.fits'') (Named ''b.fits'') None
      (PyNum 1) False True True [] =
        (Inr (returns (squeeze image_c) image_b False [(''NAXIS'', ''2'')]),
         log_event (Print ''Could not use sigma_cut'') w1)"
    using match_fits_degenerate_sigma_cut
      [of example_libs example_world "Named ''c.fits''" "Named ''b.fits''" None True True "[]"
        "[(''NAXIS'', ''2'')]" "squeeze image_c" image_b w1 "PyNum 1" False]
      r1 shape_c_b sum_c_b lv(2)
    by blast
  have m2: "match_fits example_libs example_world (Named ''c.fits'') (Named ''d.fits'') None
      (PyNum 1) False True True [] =
        (Inr (returns (cut_image example_libs (PyNum 1) (squeeze image_c))
               (cut_image example_libs (PyNum 1) image_d) False [(''NAXIS'', ''2'')]), w2)"
    using match_fits_degenerate_sigma_cut
      [of example_libs example_world "Named ''c.fits''" "Named ''d.fits''" None True True "[]"
        "[(''NAXIS'', ''2'')]" "squeeze image_c" image_d w2 "PyNum 1" False]
      r2 shape_c_d p lv example_float_laws example_sign_laws
    by blast
  have p15: "Num 15 \<in> set (overlap_products example_libs
                      (cut_image example_libs (PyNum 1) (squeeze image_c))
                      (cut_image example_libs (PyNum 1) image_d))"
    by (simp add: products_c_d)
  have "fst (match_fits example_libs example_world (Named ''c.fits'') (Named ''d.fits'') None
            (PyNum 1) False True True []) =
       Inr [Img \<lparr>shape = [2, 2], pixels = [Num 0, Num 3, Num 0, Num 3]\<rparr>,
            Img \<lparr>shape = [2, 2], pixels = [Num 0, Num 5, Num 5, Num 0]\<rparr>]"
    using m2 by (simp add: returns_def cut_c cut_d)
  moreover have "fst (match_fits example_libs example_world (Named ''c.fits'')
      (Named ''b.fits'') None (PyNum 1) False True True []) =
        Inr [Img (squeeze image_c), Img image_b]"
    using m1 by (simp add: returns_def)
  ultimately show ?thesis
    using sum_c_b p15 lv(2) example_float_laws example_sign_laws by blast
qed

subsection \<open>The pixels after a sigma cut\<close>



end
